theory Spec2Isabelle
  imports Main "HOL-Library.Sublist"
begin

section \<open>The allowlist plugin of src/index.ts\<close>

text \<open>
  The plugin answers permission requests of the host: a request for a directory outside
  the project is approved when its path lies under a directory listed in one of the
  \<^verbatim>\<open>opencode-allowlist.json\<close> files. The theory embeds the four functions of
  \<^verbatim>\<open>src/index.ts\<close>: \<^verbatim>\<open>findConfigFiles\<close>, \<^verbatim>\<open>getAllowedDirectories\<close>,
  \<^verbatim>\<open>isPathAllowed\<close> and the \<^verbatim>\<open>permission.ask\<close> hook. The calls of
  \<^verbatim>\<open>log.info\<close> and \<^verbatim>\<open>log.error\<close> only write to stderr and are left out.
\<close>

subsection \<open>Values\<close>

text \<open>
  What \<^verbatim>\<open>JSON.parse\<close> returns, and what the host may put into the metadata of a
  request. A number is kept as an integer: the program never computes with one, it only
  tests it for being zero. An object is the list of its own properties.
\<close>

datatype json =
    JNull
  | JBool bool
  | JNum int
  | JStr string
  | JArr "json list"
  | JObj "(string \<times> json) list"

text \<open>The exceptions that the program can meet.\<close>

datatype error = ReadError | SyntaxError | TypeError | CwdError

text \<open>
  JavaScript's truthiness, as \<^verbatim>\<open>||\<close> and \<^verbatim>\<open>!\<close> test it. \<open>None\<close> stands for
  \<^verbatim>\<open>undefined\<close>.
\<close>

fun truthy :: "json \<Rightarrow> bool" where
  "truthy JNull = False"
| "truthy (JBool b) = b"
| "truthy (JNum n) = (n \<noteq> 0)"
| "truthy (JStr s) = (s \<noteq> [])"
| "truthy (JArr xs) = True"
| "truthy (JObj kvs) = True"

fun truthy_opt :: "json option \<Rightarrow> bool" where
  "truthy_opt None = False"
| "truthy_opt (Some v) = truthy v"

text \<open>\<^verbatim>\<open>a || b\<close>\<close>

definition js_or :: "json option \<Rightarrow> json option \<Rightarrow> json option" where
  "js_or a b = (if truthy_opt a then a else b)"

text \<open>
  \<^verbatim>\<open>v.k\<close> for the property names the program reads (\<^verbatim>\<open>allowedDirectories\<close>,
  \<^verbatim>\<open>parentDir\<close>, \<^verbatim>\<open>filepath\<close>): a TypeError on \<^verbatim>\<open>null\<close>, the property of an
  object, \<^verbatim>\<open>undefined\<close> on every other value. \<^verbatim>\<open>v?.k\<close> is \<^verbatim>\<open>undefined\<close>
  on \<^verbatim>\<open>null\<close> instead.
\<close>

fun get_prop :: "json \<Rightarrow> string \<Rightarrow> error + json option" where
  "get_prop JNull k = Inl TypeError"
| "get_prop (JObj kvs) k = Inr (map_of kvs k)"
| "get_prop v k = Inr None"

fun get_prop_opt :: "json \<Rightarrow> string \<Rightarrow> json option" where
  "get_prop_opt (JObj kvs) k = map_of kvs k"
| "get_prop_opt v k = None"

subsection \<open>Node's path module, POSIX flavour\<close>

text \<open>
  \<^verbatim>\<open>path.resolve\<close>, \<^verbatim>\<open>path.join\<close> and \<^verbatim>\<open>path.dirname\<close> belong to the runtime.
  They are modelled after Node's \<^verbatim>\<open>lib/path.js\<close>: \<^verbatim>\<open>normalizeString\<close> walks the
  segments between slashes, dropping empty ones and \<^verbatim>\<open>.\<close>, and letting \<^verbatim>\<open>..\<close>
  remove the segment before it.
\<close>

fun splitOn :: "char \<Rightarrow> string \<Rightarrow> string list" where
  "splitOn c [] = [[]]"
| "splitOn c (x # xs) =
     (if x = c then [] # splitOn c xs
      else (case splitOn c xs of
              [] \<Rightarrow> [[x]]
            | s # ss \<Rightarrow> (x # s) # ss))"

fun join_segments :: "string list \<Rightarrow> string" where
  "join_segments [] = []"
| "join_segments [s] = s"
| "join_segments (s # t # ss) = s @ CHR ''/'' # join_segments (t # ss)"

definition normalize_step :: "bool \<Rightarrow> string list \<Rightarrow> string \<Rightarrow> string list" where
  "normalize_step allowAboveRoot res seg =
     (if seg = [] \<or> seg = ''.'' then res
      else if seg = ''..'' then
        (if res \<noteq> [] \<and> last res \<noteq> ''..'' then butlast res
         else if allowAboveRoot then res @ [''..'']
         else res)
      else res @ [seg])"

definition normalizeString :: "string \<Rightarrow> bool \<Rightarrow> string" where
  "normalizeString path allowAboveRoot =
     join_segments (foldl (normalize_step allowAboveRoot) [] (splitOn CHR ''/'' path))"

text \<open>
  \<^verbatim>\<open>path.resolve(p)\<close> with one argument: the argument first, then the working directory
  when the argument is not absolute; empty strings are skipped. \<open>resolve\<close> is given the
  directory that \<^verbatim>\<open>process.cwd()\<close> returns; the call in a process whose working directory
  has been removed, where \<^verbatim>\<open>process.cwd()\<close> throws, is \<open>path_resolve\<close> below.
\<close>

definition isAbsolute :: "string \<Rightarrow> bool" where
  "isAbsolute p = (case p of [] \<Rightarrow> False | c # _ \<Rightarrow> c = CHR ''/'')"

definition resolve :: "string \<Rightarrow> string \<Rightarrow> string" where
  "resolve cwd p =
     (let r0 = (if p = [] then [] else p @ ''/'');
          resolvedPath = (if isAbsolute p \<or> cwd = [] then r0 else cwd @ ''/'' @ r0);
          resolvedAbsolute = (isAbsolute p \<or> isAbsolute cwd);
          n = normalizeString resolvedPath (\<not> resolvedAbsolute)
      in if resolvedAbsolute then CHR ''/'' # n
         else if n \<noteq> [] then n else ''.'')"

text \<open>\<^verbatim>\<open>path.normalize\<close> and \<^verbatim>\<open>path.join\<close>\<close>

definition normalize :: "string \<Rightarrow> string" where
  "normalize path =
     (if path = [] then ''.''
      else
        let trailingSeparator = (last path = CHR ''/'');
            n = normalizeString path (\<not> isAbsolute path)
        in if n = [] then
             (if isAbsolute path then ''/'' else if trailingSeparator then ''./'' else ''.'')
           else (if isAbsolute path then ''/'' else []) @ n @ (if trailingSeparator then ''/'' else []))"

definition path_join :: "string list \<Rightarrow> string" where
  "path_join args =
     (case filter (\<lambda>a. a \<noteq> []) args of
        [] \<Rightarrow> ''.''
      | parts \<Rightarrow> normalize (join_segments parts))"

text \<open>
  \<^verbatim>\<open>path.dirname\<close>: the scan runs from the last character down to index 1 and stops at
  the first slash that follows a character which is not a slash.
\<close>

fun dirname_end :: "string \<Rightarrow> nat \<Rightarrow> bool \<Rightarrow> nat option" where
  "dirname_end path 0 matchedSlash = None"
| "dirname_end path (Suc i) matchedSlash =
     (if path ! Suc i = CHR ''/'' then
        (if \<not> matchedSlash then Some (Suc i) else dirname_end path i matchedSlash)
      else dirname_end path i False)"

definition dirname :: "string \<Rightarrow> string" where
  "dirname path =
     (if path = [] then ''.''
      else
        (case dirname_end path (length path - 1) True of
           None \<Rightarrow> if isAbsolute path then ''/'' else ''.''
         | Some e \<Rightarrow> if isAbsolute path \<and> e = 1 then ''//'' else take e path))"

subsection \<open>The path authorizer\<close>

text \<open>
  \<^verbatim>\<open>path.resolve\<close> validates its argument: anything but a string is a TypeError.
\<close>

fun resolve_value :: "string \<Rightarrow> json \<Rightarrow> error + string" where
  "resolve_value cwd (JStr s) = Inr (resolve cwd s)"
| "resolve_value cwd v = Inl TypeError"

text \<open>\<^verbatim>\<open>s.startsWith(t)\<close>\<close>

definition startsWith :: "string \<Rightarrow> string \<Rightarrow> bool" where
  "startsWith s t = prefix t s"

text \<open>
  \<^verbatim>\<open>isPathAllowed(requestedPath, allowedDirs)\<close>. The annotations say
  \<^verbatim>\<open>string\<close> and \<^verbatim>\<open>string[]\<close>, but the values come from \<^verbatim>\<open>JSON.parse\<close> and
  from the host unchecked, so the model takes any value. Each round resolves the allowed
  directory first and the requested path second; the working directory is the process's.
\<close>

fun isPathAllowed :: "string \<Rightarrow> json \<Rightarrow> json list \<Rightarrow> error + bool" where
  "isPathAllowed cwd requestedPath [] = Inr False"
| "isPathAllowed cwd requestedPath (allowedDir # allowedDirs) =
     (case resolve_value cwd allowedDir of
        Inl e \<Rightarrow> Inl e
      | Inr normalizedAllowed \<Rightarrow>
          (case resolve_value cwd requestedPath of
             Inl e \<Rightarrow> Inl e
           | Inr normalizedRequested \<Rightarrow>
               if startsWith normalizedRequested normalizedAllowed then Inr True
               else isPathAllowed cwd requestedPath allowedDirs))"

subsection \<open>The file system, the environment and the plugin's state\<close>

text \<open>
  A file is modelled by what the program can learn of it: whether \<^verbatim>\<open>fs.access\<close>
  finds it, whether \<^verbatim>\<open>fs.readFile\<close> returns its text, and what \<^verbatim>\<open>JSON.parse\<close>
  makes of that text.
\<close>

datatype content = Malformed | Json json

datatype fs_entry = Absent | Unreadable | Text content

type_synonym filesystem = "string \<Rightarrow> fs_entry"

definition fs_access :: "filesystem \<Rightarrow> string \<Rightarrow> bool" where
  "fs_access fs p = (fs p \<noteq> Absent)"

definition fs_readFile :: "filesystem \<Rightarrow> string \<Rightarrow> error + content" where
  "fs_readFile fs p = (case fs p of Text c \<Rightarrow> Inr c | _ \<Rightarrow> Inl ReadError)"

definition JSON_parse :: "content \<Rightarrow> error + json" where
  "JSON_parse c = (case c of Json v \<Rightarrow> Inr v | Malformed \<Rightarrow> Inl SyntaxError)"

text \<open>
  The plugin is created with \<^verbatim>\<open>directory\<close> and \<^verbatim>\<open>worktree\<close>; the process
  supplies the environment variables and the working directory.
\<close>

record env =
  directory :: string
  worktree :: string
  HOME :: "string option"
  USERPROFILE :: "string option"
  cwd :: string

text \<open>
  The state of one plugin instance: the closure variable \<^verbatim>\<open>cachedDirs\<close>
  (\<open>None\<close> for \<^verbatim>\<open>null\<close>), and the calls made to the file system so far.
\<close>

datatype fs_call = Access string | ReadFile string

record plugin_state =
  cachedDirs :: "json list option"
  fs_calls :: "fs_call list"

subsection \<open>The config locator\<close>

text \<open>\<^verbatim>\<open>process.env.HOME || process.env.USERPROFILE || "~"\<close>\<close>

definition env_or :: "string option \<Rightarrow> string \<Rightarrow> string" where
  "env_or v d = (case v of None \<Rightarrow> d | Some s \<Rightarrow> if s = [] then d else s)"

definition homeDir :: "'a env_scheme \<Rightarrow> string" where
  "homeDir e = env_or (HOME e) (env_or (USERPROFILE e) ''~'')"

definition globalConfigPaths :: "'a env_scheme \<Rightarrow> string list" where
  "globalConfigPaths e =
     [path_join [homeDir e, ''.config'', ''opencode'', ''opencode-allowlist.json''],
      path_join [homeDir e, ''.local'', ''share'', ''opencode'', ''config'',
                 ''opencode-allowlist.json'']]"

text \<open>
  \<^verbatim>\<open>try { await fs.access(p); configFiles.push(p) } catch { }\<close>, on the pair of
  \<^verbatim>\<open>configFiles\<close> and the calls made.
\<close>

definition try_access ::
  "filesystem \<Rightarrow> string list \<times> fs_call list \<Rightarrow> string \<Rightarrow> string list \<times> fs_call list" where
  "try_access fs acc p =
     (case acc of (configFiles, calls) \<Rightarrow>
        (if fs_access fs p then configFiles @ [p] else configFiles, calls @ [Access p]))"

definition configPathOf :: "string \<Rightarrow> string" where
  "configPathOf currentDir = path_join [currentDir, ''.opencode'', ''opencode-allowlist.json'']"

text \<open>
  The loop \<^verbatim>\<open>while (true)\<close> of \<^verbatim>\<open>findConfigFiles\<close> leaves when the current
  directory is the worktree or is its own parent. Each other round replaces the current
  directory by its parent, which is a fixed point of \<^verbatim>\<open>path.dirname\<close> or shorter.
\<close>

definition walk_measure :: "string \<Rightarrow> nat" where
  "walk_measure p = (if dirname p = p then 0 else Suc (length p))"

lemma dirname_end_bound: "dirname_end path i ms = Some e \<Longrightarrow> 1 \<le> e \<and> e \<le> i"
  by (induction path i ms rule: dirname_end.induct) (auto split: if_splits)

lemma dirname_end_True: "dirname_end path i True = Some e \<Longrightarrow> 1 \<le> e \<and> e < i"
  by (cases i) (auto split: if_splits dest: dirname_end_bound)

lemma dirname_dot: "dirname ''.'' = ''.''"
  by (simp add: dirname_def isAbsolute_def)

lemma dirname_root: "dirname ''/'' = ''/''"
  by (simp add: dirname_def isAbsolute_def)

lemma dirname_shrinks:
  "dirname p \<noteq> p \<Longrightarrow> dirname (dirname p) = dirname p \<or> length (dirname p) < length p"
  unfolding dirname_def[of p]
  by (auto simp: dirname_dot dirname_root split: option.splits dest!: dirname_end_True)

lemma walk_measure_step: "dirname p \<noteq> p \<Longrightarrow> walk_measure (dirname p) < walk_measure p"
  using dirname_shrinks[of p] by (auto simp: walk_measure_def)

function searchUp ::
  "filesystem \<Rightarrow> string \<Rightarrow> string \<Rightarrow> string list \<times> fs_call list \<Rightarrow> string list \<times> fs_call list" where
  "searchUp fs wt currentDir acc =
     (let acc' = try_access fs acc (configPathOf currentDir)
      in if currentDir = wt then acc'
         else
           let parentDir = dirname currentDir
           in if parentDir = currentDir then acc'
              else searchUp fs wt parentDir acc')"
  by pat_completeness auto
termination
  by (relation "measure (\<lambda>(fs, wt, currentDir, acc). walk_measure currentDir)")
     (auto simp: walk_measure_step)

text \<open>The directories that the loop makes current, in order.\<close>

function walk_dirs :: "string \<Rightarrow> string \<Rightarrow> string list" where
  "walk_dirs wt currentDir =
     currentDir #
       (if currentDir = wt then []
        else
          let parentDir = dirname currentDir
          in if parentDir = currentDir then []
             else walk_dirs wt parentDir)"
  by pat_completeness auto
termination
  by (relation "measure (\<lambda>(wt, currentDir). walk_measure currentDir)")
     (auto simp: walk_measure_step)

declare searchUp.simps [simp del] walk_dirs.simps [simp del]

text \<open>\<^verbatim>\<open>findConfigFiles\<close>: the two global paths, then the walk from the directory.\<close>

definition findConfigFiles ::
  "filesystem \<Rightarrow> 'a env_scheme \<Rightarrow> fs_call list \<Rightarrow> string list \<times> fs_call list" where
  "findConfigFiles fs e calls =
     searchUp fs (worktree e) (directory e)
       (foldl (try_access fs) ([], calls) (globalConfigPaths e))"

subsection \<open>The config merger\<close>

text \<open>
  \<^verbatim>\<open>allDirs.add(dir)\<close> on a \<^verbatim>\<open>Set\<close> kept as the list of its members in insertion
  order. Strings, numbers, booleans and \<^verbatim>\<open>null\<close> are compared by value; an array or
  an object that \<^verbatim>\<open>JSON.parse\<close> has just built is a new reference and is always added.
\<close>

fun is_primitive :: "json \<Rightarrow> bool" where
  "is_primitive (JArr xs) = False"
| "is_primitive (JObj kvs) = False"
| "is_primitive v = True"

definition set_add :: "json list \<Rightarrow> json \<Rightarrow> json list" where
  "set_add allDirs dir =
     (if is_primitive dir \<and> dir \<in> set allDirs then allDirs else allDirs @ [dir])"

text \<open>
  The body of the \<^verbatim>\<open>try\<close> for one config file. \<^verbatim>\<open>dirs.forEach\<close> exists on arrays
  only: on any other truthy value the call is a TypeError, raised before anything is
  added.
\<close>

definition loadConfig_try :: "filesystem \<Rightarrow> string \<Rightarrow> json list \<Rightarrow> error + json list" where
  "loadConfig_try fs configPath allDirs =
     (case fs_readFile fs configPath of
        Inl e \<Rightarrow> Inl e
      | Inr content \<Rightarrow>
          (case JSON_parse content of
             Inl e \<Rightarrow> Inl e
           | Inr config \<Rightarrow>
               (case get_prop config ''allowedDirectories'' of
                  Inl e \<Rightarrow> Inl e
                | Inr v \<Rightarrow>
                    (case js_or v (Some (JArr [])) of
                       Some (JArr dirs) \<Rightarrow> Inr (foldl set_add allDirs dirs)
                     | _ \<Rightarrow> Inl TypeError))))"

text \<open>The \<^verbatim>\<open>catch\<close> logs the error and goes on with the next file.\<close>

definition loadConfig ::
  "filesystem \<Rightarrow> json list \<times> fs_call list \<Rightarrow> string \<Rightarrow> json list \<times> fs_call list" where
  "loadConfig fs acc configPath =
     (case acc of (allDirs, calls) \<Rightarrow>
        (case loadConfig_try fs configPath allDirs of
           Inl e \<Rightarrow> (allDirs, calls @ [ReadFile configPath])
         | Inr allDirs' \<Rightarrow> (allDirs', calls @ [ReadFile configPath])))"

definition loadConfigs ::
  "filesystem \<Rightarrow> string list \<Rightarrow> json list \<times> fs_call list \<Rightarrow> json list \<times> fs_call list" where
  "loadConfigs fs configFiles acc = foldl (loadConfig fs) acc configFiles"

text \<open>
  \<^verbatim>\<open>getAllowedDirectories\<close>: the value returned and the state after a call that runs
  from its first line to its return with no other call of the plugin in between. Calls that
  overlap are modelled below.
\<close>

definition getAllowedDirectories ::
  "filesystem \<Rightarrow> 'a env_scheme \<Rightarrow> plugin_state \<Rightarrow> json list \<times> plugin_state" where
  "getAllowedDirectories fs e st =
     (case cachedDirs st of
        Some dirs \<Rightarrow> (dirs, st)
      | None \<Rightarrow>
          (case findConfigFiles fs e (fs_calls st) of (configFiles, calls) \<Rightarrow>
             if configFiles = [] then
               ([], st\<lparr>cachedDirs := Some [], fs_calls := calls\<rparr>)
             else
               (case loadConfigs fs configFiles ([], calls) of (allDirs, calls') \<Rightarrow>
                  (allDirs, st\<lparr>cachedDirs := Some allDirs, fs_calls := calls'\<rparr>))))"

subsection \<open>Calls that overlap\<close>






subsection \<open>The permission hook\<close>

text \<open>
  The request carries its type and the metadata object; the output carries the status,
  which the host presets. The hook returns normally (\<open>Inr ()\<close>) or fails with an
  exception that nothing in the plugin catches; either way the output and the state are
  left as they are at that moment.
\<close>

record permission =
  ptype :: string
  metadata :: json

datatype status = Ask | Deny | Allow

record ask_output =
  status :: status

definition requestedDirOf :: "'a permission_scheme \<Rightarrow> json option" where
  "requestedDirOf input =
     js_or (get_prop_opt (metadata input) ''parentDir'')
           (get_prop_opt (metadata input) ''filepath'')"

definition permission_ask ::
  "filesystem \<Rightarrow> 'e env_scheme \<Rightarrow> plugin_state \<Rightarrow> 'p permission_scheme \<Rightarrow> 'o ask_output_scheme
     \<Rightarrow> (error + unit) \<times> 'o ask_output_scheme \<times> plugin_state" where
  "permission_ask fs e st input out =
     (if ptype input \<noteq> ''external_directory'' then (Inr (), out, st)
      else
        (case requestedDirOf input of
           None \<Rightarrow> (Inr (), out, st)
         | Some requestedDir \<Rightarrow>
             if \<not> truthy requestedDir then (Inr (), out, st)
             else
               (case getAllowedDirectories fs e st of (allowedDirs, st') \<Rightarrow>
                  (case isPathAllowed (cwd e) requestedDir allowedDirs of
                     Inl err \<Rightarrow> (Inl err, out, st')
                   | Inr True \<Rightarrow> (Inr (), out\<lparr>status := Allow\<rparr>, st')
                   | Inr False \<Rightarrow> (Inr (), out, st')))))"

subsection \<open>A working directory that is gone\<close>







subsection \<open>What one file gives, and when loading it fails\<close>

text \<open>
  The directories that the merge takes from one config file when it starts from the empty
  set.
\<close>

definition loadedFrom :: "filesystem \<Rightarrow> string \<Rightarrow> json list" where
  "loadedFrom fs configPath = fst (loadConfig fs ([], []) configPath)"

text \<open>\<^verbatim>\<open>fs.readFile\<close> or \<^verbatim>\<open>JSON.parse\<close> throws on the file.\<close>

definition read_or_parse_fails :: "filesystem \<Rightarrow> string \<Rightarrow> bool" where
  "read_or_parse_fails fs configPath =
     (case fs_readFile fs configPath of
        Inl e \<Rightarrow> True
      | Inr content \<Rightarrow> isl (JSON_parse content))"

subsection \<open>Values that \<^verbatim>\<open>path.resolve\<close> accepts\<close>




subsection \<open>A sample installation\<close>

text \<open>
  A user with a global config listing two directories, a second global config without the
  \<^verbatim>\<open>allowedDirectories\<close> field, a project config that is not JSON, and a worktree
  config that repeats one directory. The plugin is started in \<^verbatim>\<open>/w/app/src\<close> of
  the worktree \<^verbatim>\<open>/w\<close>.
\<close>

definition example_fs :: filesystem where
  "example_fs p =
     (if p = ''/home/u/.config/opencode/opencode-allowlist.json'' then
        Text (Json (JObj [(''allowedDirectories'', JArr [JStr ''/opt'', JStr ''/w/projects''])]))
      else if p = ''/home/u/.local/share/opencode/config/opencode-allowlist.json'' then
        Text (Json (JObj [(''comment'', JStr ''nothing here'')]))
      else if p = ''/w/app/.opencode/opencode-allowlist.json'' then Text Malformed
      else if p = ''/w/.opencode/opencode-allowlist.json'' then
        Text (Json (JObj [(''allowedDirectories'', JArr [JStr ''/w/projects''])]))
      else Absent)"

definition example_env :: env where
  "example_env =
     \<lparr>directory = ''/w/app/src'', worktree = ''/w'', HOME = Some ''/home/u'',
      USERPROFILE = None, cwd = ''/w/app''\<rparr>"

definition fresh :: plugin_state where
  "fresh = \<lparr>cachedDirs = None, fs_calls = []\<rparr>"

text \<open>The state of the sample installation after the first load.\<close>

definition example_loaded :: plugin_state where
  "example_loaded =
     \<lparr>cachedDirs = Some [JStr ''/opt'', JStr ''/w/projects''],
      fs_calls =
        [Access ''/home/u/.config/opencode/opencode-allowlist.json'',
         Access ''/home/u/.local/share/opencode/config/opencode-allowlist.json'',
         Access ''/w/app/src/.opencode/opencode-allowlist.json'',
         Access ''/w/app/.opencode/opencode-allowlist.json'',
         Access ''/w/.opencode/opencode-allowlist.json'',
         ReadFile ''/home/u/.config/opencode/opencode-allowlist.json'',
         ReadFile ''/home/u/.local/share/opencode/config/opencode-allowlist.json'',
         ReadFile ''/w/app/.opencode/opencode-allowlist.json'',
         ReadFile ''/w/.opencode/opencode-allowlist.json'']\<rparr>"

definition global_config :: string where
  "global_config = ''/home/u/.config/opencode/opencode-allowlist.json''"

definition share_config :: string where
  "share_config = ''/home/u/.local/share/opencode/config/opencode-allowlist.json''"

definition app_config :: string where
  "app_config = ''/w/app/.opencode/opencode-allowlist.json''"

definition worktree_config :: string where
  "worktree_config = ''/w/.opencode/opencode-allowlist.json''"









text \<open>Requests for a file under \<^verbatim>\<open>/w/projects\<close>, for a file elsewhere, and of another type.\<close>

definition request_inside :: permission where
  "request_inside =
     \<lparr>ptype = ''external_directory'',
      metadata = JObj [(''filepath'', JStr ''/w/projects/app/file.ts'')]\<rparr>"

definition request_outside :: permission where
  "request_outside =
     \<lparr>ptype = ''external_directory'',
      metadata = JObj [(''filepath'', JStr ''/w/other/file.ts'')]\<rparr>"

definition request_bash :: permission where
  "request_bash =
     \<lparr>ptype = ''bash'', metadata = JObj [(''filepath'', JStr ''/w/projects/app/file.ts'')]\<rparr>"


section \<open>Properties\<close>

subsection \<open>The path authorizer\<close>

lemma isPathAllowed_strings:
  "isPathAllowed wd (JStr P) (map JStr D) =
     Inr (\<exists>d\<in>set D. startsWith (resolve wd P) (resolve wd d))"
  by (induction D) auto

lemma isPathAllowed_short_circuit:
  "startsWith (resolve wd P) (resolve wd d) \<Longrightarrow>
     isPathAllowed wd (JStr P) (map JStr ds @ JStr d # rest) = Inr True"
  by (induction ds) auto

lemma resolve_examples:
  "resolve wd ''/w/projects/app/file.ts'' = ''/w/projects/app/file.ts''"
  "resolve wd ''/w/projects'' = ''/w/projects''"
  "resolve wd ''/w/other'' = ''/w/other''"
  "resolve wd ''/w/other/file.ts'' = ''/w/other/file.ts''"
  "resolve wd ''/opt'' = ''/opt''"
  by (simp_all add: resolve_def isAbsolute_def normalizeString_def normalize_step_def)

text \<open>
  C1. On a requested path \<open>P\<close> and allowed directories \<open>D\<close> (strings, as the function
  declares them), \<^verbatim>\<open>isPathAllowed\<close> returns true if and only if the resolved form of
  \<open>P\<close> starts with the resolved form of some \<open>d\<close> of \<open>D\<close>, so it returns false only when
  all of \<open>D\<close> has been tried. The scan stops at the first match: once a matching \<open>d\<close> is
  met after directories \<open>ds\<close>, the answer is true whatever follows \<open>d\<close> in the list,
  even values that \<^verbatim>\<open>path.resolve\<close> would reject.
\<close>

theorem isPathAllowed_iff_prefix:
  "isPathAllowed wd (JStr P) (map JStr D) =
     Inr (\<exists>d\<in>set D. startsWith (resolve wd P) (resolve wd d))
   \<and> (\<forall>ds d rest. startsWith (resolve wd P) (resolve wd d) \<longrightarrow>
         isPathAllowed wd (JStr P) (map JStr ds @ JStr d # rest) = Inr True)"
  using isPathAllowed_strings isPathAllowed_short_circuit by blast

theorem isPathAllowed_iff_prefix_witness:
  "isPathAllowed ''/home/u'' (JStr ''/w/projects/app/file.ts'')
     (map JStr [''/w/other'', ''/w/projects'']) = Inr True
   \<and> isPathAllowed ''/home/u'' (JStr ''/w/other/file.ts'') (map JStr [''/w/projects'']) = Inr False
   \<and> startsWith (resolve ''/home/u'' ''/w/projects/app/file.ts'') (resolve ''/home/u'' ''/w/projects'')
   \<and> isPathAllowed ''/home/u'' (JStr ''/w/projects/app/file.ts'')
        (map JStr [''/w/other''] @ JStr ''/w/projects'' # [JNum 5]) = Inr True"
  using
    isPathAllowed_iff_prefix[of "''/home/u''" "''/w/projects/app/file.ts''"
      "[''/w/other'', ''/w/projects'']"]
    isPathAllowed_iff_prefix[of "''/home/u''" "''/w/other/file.ts''" "[''/w/projects'']"]
  by (simp add: resolve_examples startsWith_def)

text \<open>
  C2. The comparison is a comparison of characters, with no separator after the allowed
  directory: with \<^verbatim>\<open>/a/b\<close> allowed, the path \<^verbatim>\<open>/a/bc/file\<close> is approved, although
  it lies in \<^verbatim>\<open>/a/bc\<close>, a different directory with the same parent as \<^verbatim>\<open>/a/b\<close>.
\<close>

theorem sibling_prefix_false_positive:
  "isPathAllowed wd (JStr ''/a/bc/file'') [JStr ''/a/b''] = Inr True
   \<and> dirname ''/a/bc/file'' = ''/a/bc''
   \<and> dirname ''/a/bc'' = dirname ''/a/b''
   \<and> ''/a/bc'' \<noteq> ''/a/b''"
  by (simp add: resolve_def isAbsolute_def normalizeString_def normalize_step_def
      startsWith_def dirname_def)

text \<open>
  C10. An allowed directory is itself approved: a resolved path is a prefix of itself.
\<close>

theorem allowed_directory_itself:
  "d \<in> set D \<Longrightarrow> isPathAllowed wd (JStr d) (map JStr D) = Inr True"
  by (auto simp: isPathAllowed_strings startsWith_def)

theorem allowed_directory_itself_witness:
  "''/w/projects'' \<in> set [''/opt'', ''/w/projects'']
   \<and> isPathAllowed ''/home/u'' (JStr ''/w/projects'') (map JStr [''/opt'', ''/w/projects''])
       = Inr True"
  using allowed_directory_itself[of "''/w/projects''" "[''/opt'', ''/w/projects'']" "''/home/u''"]
  by simp

subsection \<open>The sample installation, evaluated\<close>

lemma example_first_load:
  "getAllowedDirectories example_fs example_env fresh =
     ([JStr ''/opt'', JStr ''/w/projects''], example_loaded)"
  by code_simp

lemma example_cwd: "cwd example_env = ''/w/app''"
  by (simp add: example_env_def)

text \<open>
  The spec's scenarios: a request under an allowed directory is approved, a request
  elsewhere is left to the host, and a request of another type is not looked at.
\<close>

lemma example_inside:
  "permission_ask example_fs example_env fresh request_inside \<lparr>status = Ask\<rparr> =
     (Inr (), \<lparr>status = Allow\<rparr>, example_loaded)"
  by code_simp

lemma example_outside:
  "permission_ask example_fs example_env fresh request_outside \<lparr>status = Ask\<rparr> =
     (Inr (), \<lparr>status = Ask\<rparr>, example_loaded)"
  by code_simp

lemma example_bash:
  "permission_ask example_fs example_env fresh request_bash \<lparr>status = Ask\<rparr> =
     (Inr (), \<lparr>status = Ask\<rparr>, fresh)"
  by code_simp

subsection \<open>The permission hook\<close>

text \<open>
  C3. The hook writes \<^verbatim>\<open>"allow"\<close> exactly when the request has the type
  \<^verbatim>\<open>external_directory\<close>, carries a target path (a truthy \<^verbatim>\<open>parentDir\<close> or
  \<^verbatim>\<open>filepath\<close>) and \<^verbatim>\<open>isPathAllowed\<close> returns true for that path and the merged
  list. In every other case, also when \<^verbatim>\<open>isPathAllowed\<close> raises, the output is the
  one it was given. So the status after the hook is \<^verbatim>\<open>"allow"\<close> or the output is
  untouched: no other status is ever written.
\<close>

theorem permission_ask_allow_or_untouched:
  "fst (snd (permission_ask fs e st input out)) =
     (if ptype input = ''external_directory'' \<and>
         (\<exists>requestedDir. requestedDirOf input = Some requestedDir \<and> truthy requestedDir \<and>
            isPathAllowed (cwd e) requestedDir (fst (getAllowedDirectories fs e st)) = Inr True)
      then out\<lparr>status := Allow\<rparr> else out)
   \<and> (status (fst (snd (permission_ask fs e st input out))) = Allow
        \<or> fst (snd (permission_ask fs e st input out)) = out)"
  by (auto simp: permission_ask_def split: option.splits prod.splits sum.splits bool.splits)

theorem permission_ask_allow_or_untouched_witness:
  "fst (snd (permission_ask example_fs example_env fresh request_inside \<lparr>status = Ask\<rparr>))
     = \<lparr>status = Allow\<rparr>
   \<and> fst (snd (permission_ask example_fs example_env fresh request_outside \<lparr>status = Deny\<rparr>))
     = \<lparr>status = Deny\<rparr>
   \<and> fst (snd (permission_ask example_fs example_env fresh request_bash \<lparr>status = Ask\<rparr>))
     = \<lparr>status = Ask\<rparr>"
proof -
  have inside: "ptype request_inside = ''external_directory''"
    "requestedDirOf request_inside = Some (JStr ''/w/projects/app/file.ts'')"
    "isPathAllowed (cwd example_env) (JStr ''/w/projects/app/file.ts'')
       (fst (getAllowedDirectories example_fs example_env fresh)) = Inr True"
    by (simp_all add: request_inside_def requestedDirOf_def js_or_def example_first_load
        example_cwd resolve_examples startsWith_def)
  have outside: "requestedDirOf request_outside = Some (JStr ''/w/other/file.ts'')"
    "isPathAllowed (cwd example_env) (JStr ''/w/other/file.ts'')
       (fst (getAllowedDirectories example_fs example_env fresh)) = Inr False"
    by (simp_all add: request_outside_def requestedDirOf_def js_or_def example_first_load
        example_cwd resolve_examples startsWith_def)
  have bash: "ptype request_bash \<noteq> ''external_directory''"
    by (simp add: request_bash_def)
  show ?thesis
    using permission_ask_allow_or_untouched[of example_fs example_env fresh request_inside
        "\<lparr>status = Ask\<rparr>"]
      permission_ask_allow_or_untouched[of example_fs example_env fresh request_outside
        "\<lparr>status = Deny\<rparr>"]
      permission_ask_allow_or_untouched[of example_fs example_env fresh request_bash
        "\<lparr>status = Ask\<rparr>"]
      inside outside bash
    by simp
qed

text \<open>
  C9. A request of any other type returns at once: the output is the one given, and the
  state is the one given, so the cache is not filled and no file is tested or read.
\<close>

theorem non_external_passes_through:
  "ptype input \<noteq> ''external_directory'' \<Longrightarrow>
     permission_ask fs e st input out = (Inr (), out, st)"
  by (simp add: permission_ask_def)

theorem non_external_passes_through_witness:
  "ptype request_bash \<noteq> ''external_directory''
   \<and> permission_ask example_fs example_env fresh request_bash \<lparr>status = Ask\<rparr>
       = (Inr (), \<lparr>status = Ask\<rparr>, fresh)"
  using non_external_passes_through[of request_bash example_fs example_env fresh
      "\<lparr>status = Ask\<rparr>"]
  by (simp add: request_bash_def)

subsection \<open>The config merger\<close>




lemma loadConfigs_Nil: "loadConfigs fs [] acc = acc"
  by (simp add: loadConfigs_def)

lemma loadConfigs_Cons:
  "loadConfigs fs (p # ys) acc = loadConfigs fs ys (loadConfig fs acc p)"
  by (simp add: loadConfigs_def)

lemma loadConfigs_append:
  "loadConfigs fs (xs @ ys) acc = loadConfigs fs ys (loadConfigs fs xs acc)"
  by (simp add: loadConfigs_def)














lemma set_foldl_set_add: "set (foldl set_add acc xs) = set acc \<union> set xs"
  by (induction xs arbitrary: acc) (auto simp: set_add_def)

lemma snd_loadConfig: "snd (loadConfig fs (allDirs, calls) p) = calls @ [ReadFile p]"
  unfolding loadConfig_def by (cases "loadConfig_try fs p allDirs") simp_all

lemma fst_loadConfig:
  "fst (loadConfig fs (allDirs, calls) p) = fst (loadConfig fs (allDirs, calls') p)"
  unfolding loadConfig_def by (cases "loadConfig_try fs p allDirs") simp_all

lemma snd_loadConfigs:
  "snd (loadConfigs fs files (allDirs, calls)) = calls @ map ReadFile files"
proof (induction files arbitrary: allDirs calls)
  case Nil
  then show ?case by (simp add: loadConfigs_Nil)
next
  case (Cons p files)
  obtain a c where ac: "loadConfig fs (allDirs, calls) p = (a, c)"
    by (cases "loadConfig fs (allDirs, calls) p")
  then have "c = calls @ [ReadFile p]"
    using snd_loadConfig[of fs allDirs calls p] by simp
  then show ?case
    using Cons.IH[of a c] ac by (simp add: loadConfigs_Cons)
qed

lemma fst_loadConfigs:
  "fst (loadConfigs fs files (allDirs, calls)) = fst (loadConfigs fs files (allDirs, calls'))"
proof (induction files arbitrary: allDirs calls calls')
  case Nil
  then show ?case by (simp add: loadConfigs_Nil)
next
  case (Cons p files)
  obtain a c where ac: "loadConfig fs (allDirs, calls) p = (a, c)"
    by (cases "loadConfig fs (allDirs, calls) p")
  obtain a' c' where ac': "loadConfig fs (allDirs, calls') p = (a', c')"
    by (cases "loadConfig fs (allDirs, calls') p")
  have "a = a'"
    using fst_loadConfig[of fs allDirs calls p calls'] ac ac' by simp
  then show ?case
    using Cons.IH[of a c c'] ac ac' by (simp add: loadConfigs_Cons)
qed

text \<open>What the body of the \<^verbatim>\<open>try\<close> adds does not depend on what is already there.\<close>

lemma loadConfig_try_Inr:
  "loadConfig_try fs p allDirs = Inr ds \<Longrightarrow>
     \<exists>xs. loadConfig_try fs p [] = Inr (foldl set_add [] xs) \<and> ds = foldl set_add allDirs xs"
  by (auto simp: loadConfig_try_def split: sum.splits option.splits json.splits)

lemma loadConfig_try_Inl:
  "loadConfig_try fs p allDirs = Inl e \<Longrightarrow> loadConfig_try fs p allDirs' = Inl e"
  by (auto simp: loadConfig_try_def split: sum.splits option.splits json.splits)

lemma loadConfig_skip:
  "loadConfig_try fs p allDirs = Inl e \<Longrightarrow>
     loadConfig fs (allDirs, calls) p = (allDirs, calls @ [ReadFile p])"
  by (simp add: loadConfig_def)

lemma set_loadConfig:
  "set (fst (loadConfig fs (allDirs, calls) p)) = set allDirs \<union> set (loadedFrom fs p)"
proof (cases "loadConfig_try fs p allDirs")
  case (Inl e)
  then have "loadConfig_try fs p [] = Inl e"
    by (rule loadConfig_try_Inl)
  with Inl show ?thesis
    by (simp add: loadConfig_def loadedFrom_def)
next
  case (Inr ds)
  then obtain xs where
    "loadConfig_try fs p [] = Inr (foldl set_add [] xs)" "ds = foldl set_add allDirs xs"
    using loadConfig_try_Inr by blast
  with Inr show ?thesis
    by (simp add: loadConfig_def loadedFrom_def set_foldl_set_add)
qed

lemma set_loadConfigs:
  "set (fst (loadConfigs fs files (allDirs, calls))) =
     set allDirs \<union> (\<Union>p\<in>set files. set (loadedFrom fs p))"
proof (induction files arbitrary: allDirs calls)
  case Nil
  then show ?case by (simp add: loadConfigs_Nil)
next
  case (Cons p files)
  obtain a c where ac: "loadConfig fs (allDirs, calls) p = (a, c)"
    by (cases "loadConfig fs (allDirs, calls) p")
  then have "set a = set allDirs \<union> set (loadedFrom fs p)"
    using set_loadConfig[of fs allDirs calls p] by simp
  then show ?case
    using Cons.IH[of a c] ac by (auto simp: loadConfigs_Cons)
qed

lemma read_or_parse_fails_Inl:
  "read_or_parse_fails fs p \<Longrightarrow> \<exists>e. loadConfig_try fs p allDirs = Inl e"
  by (auto simp: read_or_parse_fails_def loadConfig_try_def isl_def split: sum.splits)

lemma loadConfigs_skip:
  assumes "read_or_parse_fails fs p"
  shows "fst (loadConfigs fs (before @ p # after) (allDirs, calls)) =
         fst (loadConfigs fs (before @ after) (allDirs, calls))"
proof -
  obtain a c where ac: "loadConfigs fs before (allDirs, calls) = (a, c)"
    by (cases "loadConfigs fs before (allDirs, calls)")
  obtain e where "loadConfig_try fs p a = Inl e"
    using assms read_or_parse_fails_Inl by blast
  then have "loadConfig fs (a, c) p = (a, c @ [ReadFile p])"
    by (rule loadConfig_skip)
  then have "loadConfigs fs (before @ p # after) (allDirs, calls) =
      loadConfigs fs after (a, c @ [ReadFile p])"
    using ac by (simp add: loadConfigs_append loadConfigs_Cons)
  moreover have "loadConfigs fs (before @ after) (allDirs, calls) = loadConfigs fs after (a, c)"
    using ac by (simp add: loadConfigs_append)
  ultimately show ?thesis
    using fst_loadConfigs[of fs after a "c @ [ReadFile p]" c] by simp
qed

lemma loadedFrom_fails: "read_or_parse_fails fs p \<Longrightarrow> loadedFrom fs p = []"
  using read_or_parse_fails_Inl[of fs p "[]"]
  by (auto simp: loadedFrom_def loadConfig_def)

lemma no_dirs_no_error:
  assumes "fs p = Text (Json config)"
    and "get_prop config ''allowedDirectories'' = Inr None \<or>
         get_prop config ''allowedDirectories'' = Inr (Some (JArr []))"
  shows "loadConfig_try fs p allDirs = Inr allDirs"
  using assms by (auto simp: loadConfig_try_def fs_readFile_def JSON_parse_def js_or_def)

text \<open>
  C7. A config file on which \<^verbatim>\<open>fs.readFile\<close> or \<^verbatim>\<open>JSON.parse\<close> throws gives
  nothing to the merge, and the merge goes on: with the file \<open>p\<close> anywhere in the list, the
  merged list is the one obtained without \<open>p\<close>. Every file of the list is read, in order,
  and the merged set is the given set with what each file gives. A file that parses and
  has no \<^verbatim>\<open>allowedDirectories\<close>, or an empty one, runs through the \<^verbatim>\<open>try\<close> without
  an exception and leaves the set as it was.
\<close>

theorem failed_config_is_skipped:
  "(read_or_parse_fails fs p \<longrightarrow>
      loadedFrom fs p = [] \<and>
      fst (loadConfigs fs (before @ p # after) (allDirs, calls)) =
        fst (loadConfigs fs (before @ after) (allDirs, calls)))
   \<and> snd (loadConfigs fs files (allDirs, calls)) = calls @ map ReadFile files
   \<and> set (fst (loadConfigs fs files (allDirs, calls))) =
        set allDirs \<union> (\<Union>q\<in>set files. set (loadedFrom fs q))
   \<and> (fs p = Text (Json config) \<and>
        (get_prop config ''allowedDirectories'' = Inr None \<or>
         get_prop config ''allowedDirectories'' = Inr (Some (JArr []))) \<longrightarrow>
          loadConfig_try fs p allDirs = Inr allDirs)"
  using loadedFrom_fails[of fs p] loadConfigs_skip[of fs p before after allDirs calls]
    snd_loadConfigs[of fs files allDirs calls] set_loadConfigs[of fs files allDirs calls]
    no_dirs_no_error[of fs p config allDirs]
  by blast

lemma example_fails: "read_or_parse_fails example_fs app_config"
  by (simp add: read_or_parse_fails_def example_fs_def app_config_def fs_readFile_def
      JSON_parse_def)

lemma example_no_field:
  "example_fs share_config = Text (Json (JObj [(''comment'', JStr ''nothing here'')]))"
  "get_prop (JObj [(''comment'', JStr ''nothing here'')]) ''allowedDirectories'' = Inr None"
  by (simp_all add: example_fs_def share_config_def)

lemma example_merge:
  "loadConfigs example_fs [global_config, app_config, worktree_config] ([], []) =
     ([JStr ''/opt'', JStr ''/w/projects''],
      [ReadFile global_config, ReadFile app_config, ReadFile worktree_config])"
  "loadConfigs example_fs [global_config, worktree_config] ([], []) =
     ([JStr ''/opt'', JStr ''/w/projects''],
      [ReadFile global_config, ReadFile worktree_config])"
  "loadConfigs example_fs [worktree_config, global_config] ([], []) =
     ([JStr ''/w/projects'', JStr ''/opt''],
      [ReadFile worktree_config, ReadFile global_config])"
  by code_simp+

theorem failed_config_is_skipped_witness:
  "read_or_parse_fails example_fs app_config
   \<and> loadedFrom example_fs app_config = []
   \<and> fst (loadConfigs example_fs ([global_config] @ app_config # [worktree_config]) ([], [])) =
       [JStr ''/opt'', JStr ''/w/projects'']
   \<and> fst (loadConfigs example_fs ([global_config] @ [worktree_config]) ([], [])) =
       [JStr ''/opt'', JStr ''/w/projects'']
   \<and> snd (loadConfigs example_fs [global_config, app_config, worktree_config] ([], [])) =
       [ReadFile global_config, ReadFile app_config, ReadFile worktree_config]
   \<and> example_fs share_config = Text (Json (JObj [(''comment'', JStr ''nothing here'')]))
   \<and> get_prop (JObj [(''comment'', JStr ''nothing here'')]) ''allowedDirectories'' = Inr None
   \<and> loadConfig_try example_fs share_config [JStr ''/opt''] = Inr [JStr ''/opt'']"
  using
    failed_config_is_skipped[of example_fs app_config "[global_config]" "[worktree_config]"
      "[]" "[]" "[global_config, app_config, worktree_config]"]
    failed_config_is_skipped[of example_fs share_config "[]" "[]" "[JStr ''/opt'']" "[]" "[]"
      "JObj [(''comment'', JStr ''nothing here'')]"]
    example_fails example_no_field example_merge
  by simp

text \<open>Values compared by value never get into the set twice.\<close>

lemma primitives_once_set_add:
  "distinct (filter is_primitive allDirs) \<Longrightarrow>
     distinct (filter is_primitive (set_add allDirs v))"
  by (auto simp: set_add_def)

lemma primitives_once_foldl:
  "distinct (filter is_primitive allDirs) \<Longrightarrow>
     distinct (filter is_primitive (foldl set_add allDirs xs))"
  by (induction xs arbitrary: allDirs) (auto simp: primitives_once_set_add)

lemma primitives_once_loadConfig:
  assumes "distinct (filter is_primitive allDirs)"
  shows "distinct (filter is_primitive (fst (loadConfig fs (allDirs, calls) p)))"
proof (cases "loadConfig_try fs p allDirs")
  case (Inl e)
  then show ?thesis
    using assms by (simp add: loadConfig_def)
next
  case (Inr ds)
  then obtain xs where "ds = foldl set_add allDirs xs"
    using loadConfig_try_Inr by blast
  with Inr show ?thesis
    using assms by (simp add: loadConfig_def primitives_once_foldl)
qed

lemma primitives_once_loadConfigs:
  "distinct (filter is_primitive allDirs) \<Longrightarrow>
     distinct (filter is_primitive (fst (loadConfigs fs files (allDirs, calls))))"
proof (induction files arbitrary: allDirs calls)
  case Nil
  then show ?case by (simp add: loadConfigs_Nil)
next
  case (Cons p files)
  obtain a c where ac: "loadConfig fs (allDirs, calls) p = (a, c)"
    by (cases "loadConfig fs (allDirs, calls) p")
  then have "distinct (filter is_primitive a)"
    using primitives_once_loadConfig[OF Cons.prems, of fs calls p] by simp
  then show ?case
    using Cons.IH[of a c] ac by (simp add: loadConfigs_Cons)
qed

lemma count_list_distinct: "distinct xs \<Longrightarrow> count_list xs x \<le> 1"
  by (induction xs) (auto simp: count_list_0_iff)

lemma count_list_filter: "P x \<Longrightarrow> count_list (filter P xs) x = count_list xs x"
  by (induction xs) auto

lemma string_once: "count_list (fst (loadConfigs fs files ([], calls))) (JStr s) \<le> 1"
  using primitives_once_loadConfigs[of "[]" fs files calls]
    count_list_distinct[of "filter is_primitive (fst (loadConfigs fs files ([], calls)))" "JStr s"]
    count_list_filter[of is_primitive "JStr s" "fst (loadConfigs fs files ([], calls))"]
  by simp

text \<open>
  C8. The merged set depends only on which config files are loaded, not on their order:
  two lists with the same files give the same set. That set is the union of what each
  file gives, so no file overrides another, and a directory string that several files
  list is in the merged list once.
\<close>

theorem merge_order_independent:
  "set files1 = set files2 \<Longrightarrow>
     set (fst (loadConfigs fs files1 ([], calls1))) = set (fst (loadConfigs fs files2 ([], calls2)))
   \<and> set (fst (loadConfigs fs files1 ([], calls1))) = (\<Union>p\<in>set files1. set (loadedFrom fs p))
   \<and> count_list (fst (loadConfigs fs files1 ([], calls1))) (JStr s) \<le> 1"
  using string_once[of fs files1 calls1 s] by (simp add: set_loadConfigs)

lemma example_loadedFrom:
  "loadedFrom example_fs global_config = [JStr ''/opt'', JStr ''/w/projects'']"
  "loadedFrom example_fs worktree_config = [JStr ''/w/projects'']"
  by code_simp+

theorem merge_order_independent_witness:
  "set [global_config, worktree_config] = set [worktree_config, global_config]
   \<and> fst (loadConfigs example_fs [global_config, worktree_config] ([], [])) =
       [JStr ''/opt'', JStr ''/w/projects'']
   \<and> fst (loadConfigs example_fs [worktree_config, global_config] ([], [])) =
       [JStr ''/w/projects'', JStr ''/opt'']
   \<and> set [JStr ''/opt'', JStr ''/w/projects''] = set [JStr ''/w/projects'', JStr ''/opt'']
   \<and> set [JStr ''/opt'', JStr ''/w/projects''] =
       set (loadedFrom example_fs global_config) \<union> set (loadedFrom example_fs worktree_config)
   \<and> count_list [JStr ''/opt'', JStr ''/w/projects''] (JStr ''/w/projects'') = 1"
  using
    merge_order_independent[of "[global_config, worktree_config]"
      "[worktree_config, global_config]" example_fs "[]" "[]" "''/w/projects''"]
    example_merge example_loadedFrom
  by auto

subsection \<open>The config locator\<close>

























subsection \<open>Errors\<close>


























end
